theory Spec2Isabelle
  imports Complex_Main "HOL-Library.Multiset"
begin

section \<open>The uri\_test module: request executor and load driver\<close>

text \<open>
  The embedding follows \<^verbatim>\<open>src/core/library/uri_test.py\<close>. Python's floats
  (the readings of \<^verbatim>\<open>time.time()\<close> and everything computed from them) are
  idealised as exact rationals; Python's unbounded integers are \<^typ>\<open>int\<close>; byte strings
  are \<^typ>\<open>string\<close>. Exceptions are values of the type \<open>error\<close>, and a function that
  may raise returns \<open>error + 'a\<close>; a run that never returns has no outcome (\<open>None\<close>).
\<close>

subsection \<open>Builtins\<close>

text \<open>
  \<^verbatim>\<open>round(x, n)\<close> on exact values: the decimal with \<open>n\<close> places nearest to \<open>x\<close>, a tie going
  to the even neighbour (Python 3; Python 2 sends a tie away from zero). Python rounds a
  binary float, which lies slightly off a decimal tie: \<^verbatim>\<open>round(1/40.0, 2)\<close> is 0.03,
  where the exact value 1/40 goes to 0.02. The values of the rates are therefore those of
  an idealisation, and no property below is about them. The properties use the rounding
  only to decide whether \<^verbatim>\<open>total_time\<close> is zero, and the concrete runs avoid ties.
\<close>

definition round_half_even :: "rat \<Rightarrow> int" where
  "round_half_even x =
     (let f = \<lfloor>x\<rfloor>; d = x - of_int f
      in if d < 1 / 2 then f
         else if 1 / 2 < d then f + 1
         else if even f then f else f + 1)"

definition py_round :: "rat \<Rightarrow> nat \<Rightarrow> rat" where
  "py_round x n = of_int (round_half_even (x * 10 ^ n)) / 10 ^ n"

subsection \<open>Data\<close>

text \<open>
  What \<^verbatim>\<open>open_url\<close> can raise, and the exceptions that end a run. \<open>FailJson d\<close>
  stands for the call \<^verbatim>\<open>module.fail_json(d)\<close> with the dictionary \<open>d\<close> as its positional
  argument: the run ends in that call (with a failure carrying \<open>d\<close>, or with the
  \<^verbatim>\<open>TypeError\<close> of a version of \<^verbatim>\<open>AnsibleModule\<close> that takes keywords only).
  \<^verbatim>\<open>MaybeEncodingError\<close> is what the pool puts in the place of a result that a worker
  cannot send.
\<close>

datatype url_error = URLError string | HTTPError int

datatype error =
    FailJson "(string \<times> string) list"
  | AttributeError string
  | OpenUrlRaised url_error
  | MaybeEncodingError
  | ZeroDivisionError

text \<open>\<^verbatim>\<open>URIResult = namedtuple('URIResult', ['status', 'time', 'content_length', 'total_length'])\<close>\<close>

record URIResult =
  status :: int
  time :: rat
  content_length :: int
  total_length :: int

text \<open>
  The network is outside the program. One exchange with the server says how long
  \<^verbatim>\<open>open_url\<close> takes and what it gives back: an exception, or a response object with
  its status code, its body, and the time that reading the body takes.
\<close>

record http_response =
  code :: int
  body :: string
  read_dur :: rat

record exchange =
  open_dur :: rat
  reply :: "url_error + http_response"

type_synonym headers = "(string \<times> string) list"

type_synonym server = "string \<Rightarrow> headers \<Rightarrow> exchange"

text \<open>The module parameters, as \<^verbatim>\<open>AnsibleModule\<close> hands them over (typed, defaults filled in).\<close>

record params =
  uri :: string
  request_count :: int
  workers :: int
  keepalive :: bool
  variable_length :: bool

text \<open>
  What a run of \<^verbatim>\<open>main\<close> meets: the two clock readings of the driver, and for the
  \<open>i\<close>-th submitted task the server behaviour it finds, the clock of its worker when
  it starts, and whether its worker manages to pickle an \<^verbatim>\<open>HTTPError\<close> (which depends
  on what the exception holds).
\<close>

record world =
  m_start :: rat
  m_end :: rat
  servers :: "nat \<Rightarrow> server"
  worker_clock :: "nat \<Rightarrow> rat"
  http_error_sent :: "nat \<Rightarrow> bool"

text \<open>The dictionary given to \<^verbatim>\<open>exit_json\<close>.\<close>

record report =
  total_time :: rat
  total_bytes_transferred :: int
  total_content_bytes_transferred :: int
  requests_per_second :: rat
  kbytes_per_second :: rat
  failed_requests :: int

text \<open>
  What is observed of a run: how it ended (\<open>None\<close> when it never returns), the
  \<^verbatim>\<open>processes\<close> argument given to \<^verbatim>\<open>Pool\<close> (if a pool was made), and how many
  invocations of the executor were handed to the pool.
\<close>

record run_result =
  outcome :: "(error + report) option"
  pool_processes :: "int option"
  executor_calls :: nat

subsection \<open>The request executor\<close>

text \<open>
  The effects of \<^verbatim>\<open>run_test\<close> on the worker's clock are passed explicitly: each
  operation takes the clock and returns it advanced; \<^verbatim>\<open>time.time()\<close> reads it.
  \<^verbatim>\<open>open_url\<close> belongs to a library: it is modelled by what the server of the
  exchange answers, any status or exception being possible (the library itself raises
  \<^verbatim>\<open>HTTPError\<close> for an error status, which is one of these behaviours). The value of
  \<^verbatim>\<open>res.info()\<close> is not used and the call is left out.
\<close>

definition open_url :: "server \<Rightarrow> string \<Rightarrow> headers \<Rightarrow> rat \<Rightarrow> (error + http_response) \<times> rat" where
  "open_url srv u hs clock =
     (let x = srv u hs
      in (case reply x of Inl e \<Rightarrow> Inl (OpenUrlRaised e) | Inr res \<Rightarrow> Inr res,
          clock + open_dur x))"

definition res_read :: "http_response \<Rightarrow> rat \<Rightarrow> string \<times> rat" where
  "res_read res clock = (body res, clock + read_dur res)"

definition run_test :: "server \<Rightarrow> string \<Rightarrow> bool \<Rightarrow> bool \<Rightarrow> rat \<Rightarrow> (error + URIResult) \<times> rat" where
  "run_test srv u ka vl clock0 =
     (let hs = (if ka then [(''Connection'', ''keep-alive'')] else []);
          start = clock0;
          (r, clock1) = open_url srv u hs clock0
      in case r of
           Inl e \<Rightarrow> (Inl e, clock1)
         | Inr res \<Rightarrow>
             (let finish = clock1;
                  (data, clock2) = res_read res clock1;
                  cl = int (length data);
                  tl = cl
              in (Inr \<lparr>status = code res, time = finish - start,
                       content_length = cl, total_length = tl\<rparr>, clock2)))"

subsection \<open>The load driver\<close>

text \<open>The accumulators of the result loop.\<close>

record totals =
  total_bytes :: int
  total_content_bytes :: int
  total_errors :: int

text \<open>
  The loop over \<^verbatim>\<open>async_results\<close>: \<^verbatim>\<open>async_result.get()\<close> returns the task's
  value, or raises again the exception the task ended with.
\<close>

fun aggregate :: "(error + URIResult) list \<Rightarrow> totals \<Rightarrow> error + totals" where
  "aggregate [] acc = Inr acc"
| "aggregate (a # rest) acc =
     (case a of
        Inl e \<Rightarrow> Inl e
      | Inr res \<Rightarrow>
          aggregate rest
            \<lparr>total_bytes = total_bytes acc + total_length res,
             total_content_bytes = total_content_bytes acc + content_length res,
             total_errors = (if status res < 200 \<or> 400 \<le> status res
                             then total_errors acc + 1 else total_errors acc)\<rparr>)"

text \<open>
  \<^verbatim>\<open>[pool.apply_async(run_test, (uri, keepalive, variable_length)) for i in range(0, request_count)]\<close>
  followed by \<^verbatim>\<open>pool.close(); pool.join()\<close>: every task has run when the list is read.
\<close>

definition task :: "params \<Rightarrow> world \<Rightarrow> nat \<Rightarrow> error + URIResult" where
  "task p w i =
     fst (run_test (servers w i) (uri p) (keepalive p) (variable_length p) (worker_clock w i))"

text \<open>
  The pool carries the outcome of a task from its worker to the driver by pickling.
  A \<^verbatim>\<open>URIResult\<close> and a \<^verbatim>\<open>URLError\<close> arrive as they are, and
  \<^verbatim>\<open>async_result.get()\<close> returns the one and raises the other. An
  \<^verbatim>\<open>HTTPError\<close> does not survive: either the worker fails to pickle it and sends
  \<^verbatim>\<open>MaybeEncodingError\<close> in its place, which \<^verbatim>\<open>get()\<close> then raises; or the worker
  sends it, the pool fails to rebuild it, and the result is lost.
\<close>

definition pool_get :: "error + URIResult \<Rightarrow> error + URIResult" where
  "pool_get r =
     (case r of
        Inl (OpenUrlRaised (HTTPError c)) \<Rightarrow> Inl MaybeEncodingError
      | _ \<Rightarrow> r)"

definition lost :: "params \<Rightarrow> world \<Rightarrow> nat \<Rightarrow> bool" where
  "lost p w i =
     (case task p w i of
        Inl (OpenUrlRaised (HTTPError c)) \<Rightarrow> http_error_sent w i
      | _ \<Rightarrow> False)"

text \<open>
  The pool still waits for a lost result when the driver calls \<^verbatim>\<open>pool.join()\<close>,
  which then never returns.
\<close>

definition pool_hangs :: "params \<Rightarrow> world \<Rightarrow> bool" where
  "pool_hangs p w = list_ex (lost p w) [0 ..< nat (request_count p)]"

definition async_results :: "params \<Rightarrow> world \<Rightarrow> (error + URIResult) list" where
  "async_results p w = map (\<lambda>i. pool_get (task p w i)) [0 ..< nat (request_count p)]"

text \<open>
  \<^verbatim>\<open>main\<close>, in the order of the source: the two checks of the parameters, the
  clamping of \<^verbatim>\<open>workers\<close>, the pool and its tasks, the rounding of the total time,
  the result loop, and last the dictionary of the report with its two divisions.
  \<^item> \<^verbatim>\<open>module.fail_json(...)\<close> belongs to \<^verbatim>\<open>AnsibleModule\<close> and does not return:
    the run ends in that call (\<open>FailJson\<close>, with the dictionary it is given).
  \<^item> The second check is written \<^verbatim>\<open>module.fail-json(...)\<close>, a subtraction whose left
    operand \<^verbatim>\<open>module.fail\<close> is evaluated first and does not exist: it raises
    \<^verbatim>\<open>AttributeError\<close>.
  \<^item> When a result is lost, \<^verbatim>\<open>pool.join()\<close> does not return and neither does the run.
  \<^item> An exception of a task comes out of \<^verbatim>\<open>async_result.get()\<close> in the result loop,
    before the report is built.
  \<^item> A division by a \<^verbatim>\<open>total_time\<close> of zero raises \<^verbatim>\<open>ZeroDivisionError\<close>; the
    first division met is that of \<^verbatim>\<open>requests_per_second\<close>.
\<close>

definition main :: "params \<Rightarrow> world \<Rightarrow> run_result" where
  "main p w =
     (if workers p < 1 then
        \<lparr>outcome = Some (Inl (FailJson [(''msg'', ''workers must be greater than 0'')])),
         pool_processes = None, executor_calls = 0\<rparr>
      else if request_count p < 1 then
        \<lparr>outcome = Some (Inl (AttributeError ''fail'')),
         pool_processes = None, executor_calls = 0\<rparr>
      else
        (let workers' = (if request_count p < workers p then request_count p else workers p);
             rs = async_results p w;
             tt = py_round (m_end w - m_start w) 3
         in \<lparr>outcome =
               (if pool_hangs p w then None
                else Some
                  (case aggregate rs \<lparr>total_bytes = 0, total_content_bytes = 0, total_errors = 0\<rparr> of
                     Inl e \<Rightarrow> Inl e
                   | Inr acc \<Rightarrow>
                       if tt = 0 then Inl ZeroDivisionError
                       else Inr \<lparr>total_time = tt,
                                 total_bytes_transferred = total_bytes acc,
                                 total_content_bytes_transferred = total_content_bytes acc,
                                 requests_per_second = py_round (of_int (request_count p) / tt) 2,
                                 kbytes_per_second =
                                   py_round ((of_int (total_bytes acc) / tt) / 2 ^ 10) 2,
                                 failed_requests = total_errors acc\<rparr>)),
             pool_processes = Some workers',
             executor_calls = length rs\<rparr>))"

subsection \<open>Notions used to state the properties\<close>

text \<open>The results the driver collected: the values of the tasks that returned.\<close>

definition collected :: "params \<Rightarrow> world \<Rightarrow> URIResult list" where
  "collected p w = [r. Inr r \<leftarrow> async_results p w]"

text \<open>The headers \<^verbatim>\<open>run_test\<close> sends, and the exchange the \<open>i\<close>-th task has with them.\<close>

definition request_headers :: "bool \<Rightarrow> headers" where
  "request_headers ka = (if ka then [(''Connection'', ''keep-alive'')] else [])"

definition served :: "params \<Rightarrow> world \<Rightarrow> nat \<Rightarrow> exchange" where
  "served p w i = servers w i (uri p) (request_headers (keepalive p))"

text \<open>The number of body bytes the \<open>i\<close>-th task reads (none when \<^verbatim>\<open>open_url\<close> raises).\<close>

definition body_bytes :: "params \<Rightarrow> world \<Rightarrow> nat \<Rightarrow> int" where
  "body_bytes p w i = (case reply (served p w i) of Inl e \<Rightarrow> 0 | Inr res \<Rightarrow> int (length (body res)))"

subsection \<open>Concrete runs\<close>

text \<open>
  A server that answers with a given status and a three-byte body: \<^verbatim>\<open>open_url\<close>
  takes 2 seconds, reading the body 3 more. A server that refuses the connection.
\<close>

definition status_server :: "int \<Rightarrow> server" where
  "status_server c u hs = \<lparr>open_dur = 2, reply = Inr \<lparr>code = c, body = ''abc'', read_dur = 3\<rparr>\<rparr>"


definition kilobyte_server :: server where
  "kilobyte_server u hs =
     \<lparr>open_dur = 1, reply = Inr \<lparr>code = 200, body = replicate 1024 (CHR ''x''), read_dur = 1\<rparr>\<rparr>"


definition all_ok :: "nat \<Rightarrow> server" where
  "all_ok i = status_server 200"

definition all_kilobyte :: "nat \<Rightarrow> server" where
  "all_kilobyte i = kilobyte_server"



definition boundary_statuses :: "nat \<Rightarrow> server" where
  "boundary_statuses i =
     status_server (if i = 0 then 199 else if i = 1 then 200 else if i = 2 then 399 else 400)"

definition clock_zero :: "nat \<Rightarrow> rat" where
  "clock_zero i = 0"

definition never_sent :: "nat \<Rightarrow> bool" where
  "never_sent i = False"


definition two_requests :: params where
  "two_requests = \<lparr>uri = ''http://example.test/ok'', request_count = 2, workers = 1,
     keepalive = False, variable_length = False\<rparr>"

definition four_requests :: params where
  "four_requests = \<lparr>uri = ''http://example.test/ok'', request_count = 4, workers = 2,
     keepalive = True, variable_length = False\<rparr>"

definition fifty_workers :: params where
  "fifty_workers = \<lparr>uri = ''http://example.test/ok'', request_count = 10, workers = 50,
     keepalive = False, variable_length = False\<rparr>"

definition no_workers :: params where
  "no_workers = \<lparr>uri = ''http://example.test/ok'', request_count = 10, workers = 0,
     keepalive = False, variable_length = False\<rparr>"

definition no_requests :: params where
  "no_requests = \<lparr>uri = ''http://example.test/ok'', request_count = 0, workers = 5,
     keepalive = False, variable_length = False\<rparr>"

definition calm_world :: world where
  "calm_world = \<lparr>m_start = 10, m_end = 12, servers = all_ok, worker_clock = clock_zero,
     http_error_sent = never_sent\<rparr>"

definition instant_world :: world where
  "instant_world = \<lparr>m_start = 10, m_end = 10, servers = all_ok, worker_clock = clock_zero,
     http_error_sent = never_sent\<rparr>"




definition boundary_world :: world where
  "boundary_world = \<lparr>m_start = 10, m_end = 12, servers = boundary_statuses, worker_clock = clock_zero,
     http_error_sent = never_sent\<rparr>"

definition kilobyte_world :: world where
  "kilobyte_world = \<lparr>m_start = 10, m_end = 23 / 2, servers = all_kilobyte, worker_clock = clock_zero,
     http_error_sent = never_sent\<rparr>"

section \<open>Properties\<close>

subsection \<open>The result loop\<close>

lemma aggregate_all_returned:
  "aggregate (map Inr rs) acc =
     Inr \<lparr>total_bytes = total_bytes acc + sum_list (map total_length rs),
          total_content_bytes = total_content_bytes acc + sum_list (map content_length rs),
          total_errors = total_errors acc
            + int (length (filter (\<lambda>r. status r < 200 \<or> 400 \<le> status r) rs))\<rparr>"
proof (induction rs arbitrary: acc)
  case Nil
  show ?case by simp
next
  case (Cons r rs)
  show ?case by (simp add: Cons.IH add.assoc)
qed


lemma aggregate_Inr_all_returned:
  "aggregate xs acc = Inr acc' \<Longrightarrow> xs = map Inr [r. Inr r \<leftarrow> xs]"
proof (induction xs arbitrary: acc)
  case Nil
  show ?case by simp
next
  case (Cons a xs)
  then show ?case by (cases a) auto
qed

lemma aggregate_Inl_member:
  "aggregate xs acc = Inl e \<Longrightarrow> Inl e \<in> set xs"
proof (induction xs arbitrary: acc)
  case Nil
  then show ?case by simp
next
  case (Cons a xs)
  then show ?case by (cases a) auto
qed

subsection \<open>One task\<close>

lemma task_raise_kind: "task p w i = Inl e \<Longrightarrow> \<exists>x. e = OpenUrlRaised x"
  by (auto simp: task_def run_test_def open_url_def res_read_def Let_def
      split: sum.splits prod.splits)

lemma task_returned:
  "task p w i = Inr r \<Longrightarrow> content_length r = body_bytes p w i \<and> total_length r = body_bytes p w i"
  by (cases "keepalive p")
    (auto simp: task_def run_test_def open_url_def res_read_def body_bytes_def served_def
      request_headers_def Let_def split: sum.splits)

lemma task_variable_length: "task (p\<lparr>variable_length := b\<rparr>) w = task p w"
  by (rule ext) (simp add: task_def run_test_def)

subsection \<open>The pool\<close>

lemma pool_get_Inr [simp]: "pool_get (Inr r) = Inr r"
  by (simp add: pool_get_def)

lemma pool_get_URLError [simp]:
  "pool_get (Inl (OpenUrlRaised (URLError m))) = Inl (OpenUrlRaised (URLError m))"
  by (simp add: pool_get_def)

lemma pool_get_eq_Inr: "pool_get x = Inr r \<Longrightarrow> x = Inr r"
  by (auto simp: pool_get_def split: sum.splits error.splits url_error.splits)

lemma pool_get_Inl: "\<exists>e'. pool_get (Inl e) = Inl e'"
  by (auto simp: pool_get_def split: error.splits url_error.splits)

lemma pool_get_raise_kind:
  "pool_get (task p w i) = Inl e \<Longrightarrow> (\<exists>x. e = OpenUrlRaised x) \<or> e = MaybeEncodingError"
  by (cases "task p w i")
    (auto simp: pool_get_def split: error.splits url_error.splits dest: task_raise_kind)

lemma lost_variable_length: "lost (p\<lparr>variable_length := b\<rparr>) w = lost p w"
  by (rule ext) (simp add: lost_def task_variable_length)

lemma lost_raises: "lost p w i \<Longrightarrow> \<exists>e. task p w i = Inl e"
  by (cases "task p w i") (simp_all add: lost_def)

lemma pool_hangs_raises:
  assumes "pool_hangs p w"
  shows "\<exists>i < nat (request_count p). \<exists>e. async_results p w ! i = Inl e"
proof -
  from assms obtain i where i: "i < nat (request_count p)" and "lost p w i"
    by (auto simp: pool_hangs_def list_ex_iff)
  from lost_raises [OF this(2)] obtain e where "task p w i = Inl e" ..
  with pool_get_Inl [of e] i show ?thesis
    by (auto simp: async_results_def)
qed

lemma all_returned_no_hang:
  assumes "async_results p w = map Inr rs"
  shows "\<not> pool_hangs p w"
proof
  assume "pool_hangs p w"
  from pool_hangs_raises [OF this] obtain i e
    where i: "i < nat (request_count p)" and e: "async_results p w ! i = Inl e"
    by blast
  have "length (async_results p w) = nat (request_count p)"
    by (simp add: async_results_def)
  with i assms have "async_results p w ! i = Inr (rs ! i)"
    by simp
  with e show False by simp
qed

lemma length_async_results: "length (async_results p w) = nat (request_count p)"
  by (simp add: async_results_def)



subsection \<open>A run that returns a report\<close>

lemma main_report_totals:
  assumes "outcome (main p w) = Some (Inr rep)"
  shows "async_results p w = map Inr (collected p w)"
    and "total_bytes_transferred rep = sum_list (map total_length (collected p w))"
    and "total_content_bytes_transferred rep = sum_list (map content_length (collected p w))"
    and "failed_requests rep =
           int (length (filter (\<lambda>r. status r < 200 \<or> 400 \<le> status r) (collected p w)))"
proof -
  from assms obtain acc where
    agg: "aggregate (async_results p w)
            \<lparr>total_bytes = 0, total_content_bytes = 0, total_errors = 0\<rparr> = Inr acc"
    and rep: "total_bytes_transferred rep = total_bytes acc"
      "total_content_bytes_transferred rep = total_content_bytes acc"
      "failed_requests rep = total_errors acc"
    by (auto simp: main_def Let_def split: if_splits sum.splits)
  from aggregate_Inr_all_returned [OF agg]
  show all: "async_results p w = map Inr (collected p w)"
    by (simp add: collected_def)
  from agg have "acc = \<lparr>total_bytes = sum_list (map total_length (collected p w)),
      total_content_bytes = sum_list (map content_length (collected p w)),
      total_errors =
        int (length (filter (\<lambda>r. status r < 200 \<or> 400 \<le> status r) (collected p w)))\<rparr>"
    by (subst (asm) all) (simp add: aggregate_all_returned)
  with rep show "total_bytes_transferred rep = sum_list (map total_length (collected p w))"
    and "total_content_bytes_transferred rep = sum_list (map content_length (collected p w))"
    and "failed_requests rep =
           int (length (filter (\<lambda>r. status r < 200 \<or> 400 \<le> status r) (collected p w)))"
    by simp_all
qed

lemma main_report_all_collected:
  assumes "outcome (main p w) = Some (Inr rep)"
  shows "length (collected p w) = nat (request_count p)"
proof -
  have "length (collected p w) = length (map (Inr :: URIResult \<Rightarrow> error + URIResult) (collected p w))"
    by simp
  also have "\<dots> = nat (request_count p)"
    using main_report_totals(1) [OF assms] length_async_results [of p w] by simp
  finally show ?thesis .
qed

lemma main_report_collected_tasks:
  assumes "outcome (main p w) = Some (Inr rep)"
  shows "collected p w = map (\<lambda>i. projr (task p w i)) [0 ..< nat (request_count p)]"
    and "i < nat (request_count p) \<Longrightarrow> task p w i = Inr (projr (task p w i))"
proof -
  note all = main_report_totals(1) [OF assms]
  have returned: "task p w j = Inr (projr (task p w j))" if "j < nat (request_count p)" for j
  proof -
    from that have "pool_get (task p w j) \<in> set (async_results p w)"
      by (simp add: async_results_def)
    then have "pool_get (task p w j) \<in> set (map Inr (collected p w))"
      by (simp only: all)
    then obtain r where "pool_get (task p w j) = Inr r"
      by auto
    from pool_get_eq_Inr [OF this] show ?thesis by simp
  qed
  have "map projr (async_results p w) = collected p w"
    by (subst all) (simp add: comp_def)
  moreover have "map (\<lambda>i. projr (pool_get (task p w i))) [0 ..< nat (request_count p)]
      = map (\<lambda>i. projr (task p w i)) [0 ..< nat (request_count p)]"
  proof (rule map_cong [OF refl])
    fix j assume "j \<in> set [0 ..< nat (request_count p)]"
    then have "pool_get (task p w j) = task p w j"
      using returned [of j] by (metis atLeastLessThan_iff pool_get_Inr set_upt)
    then show "projr (pool_get (task p w j)) = projr (task p w j)" by simp
  qed
  ultimately show "collected p w = map (\<lambda>i. projr (task p w i)) [0 ..< nat (request_count p)]"
    by (simp add: async_results_def comp_def)
  assume "i < nat (request_count p)"
  then show "task p w i = Inr (projr (task p w i))"
    by (rule returned)
qed

section \<open>The claims\<close>

subsection \<open>C1: a transport error in one request\<close>




subsection \<open>C2: configurations that are rejected\<close>

text \<open>
  C2: when \<open>workers < 1\<close> or \<open>request_count < 1\<close> the run ends with an error before the
  executor is invoked at all: no pool is made and the number of executor calls is zero.
  (For \<open>workers < 1\<close> the run ends in the call of \<^verbatim>\<open>fail_json\<close>; for \<open>request_count < 1\<close>
  with the \<^verbatim>\<open>AttributeError\<close> of the expression \<^verbatim>\<open>module.fail-json(...)\<close>.)
\<close>

theorem invalid_config_rejected_before_any_request:
  assumes "workers p < 1 \<or> request_count p < 1"
  shows "(\<exists>e. outcome (main p w) = Some (Inl e)) \<and> executor_calls (main p w) = 0
         \<and> pool_processes (main p w) = None"
  using assms by (auto simp: main_def)

text \<open>C2 at \<open>workers = 0\<close> and at \<open>request_count = 0\<close>.\<close>

theorem invalid_config_rejected_witness:
  "(workers no_workers < 1 \<or> request_count no_workers < 1)
   \<and> (workers no_requests < 1 \<or> request_count no_requests < 1)
   \<and> outcome (main no_workers calm_world)
       = Some (Inl (FailJson [(''msg'', ''workers must be greater than 0'')]))
   \<and> executor_calls (main no_workers calm_world) = 0
   \<and> outcome (main no_requests calm_world) = Some (Inl (AttributeError ''fail''))
   \<and> executor_calls (main no_requests calm_world) = 0"
proof -
  have h1: "workers no_workers < 1 \<or> request_count no_workers < 1"
    by (simp add: no_workers_def)
  have h2: "workers no_requests < 1 \<or> request_count no_requests < 1"
    by (simp add: no_requests_def)
  have "outcome (main no_workers calm_world)
      = Some (Inl (FailJson [(''msg'', ''workers must be greater than 0'')]))"
    and "outcome (main no_requests calm_world) = Some (Inl (AttributeError ''fail''))"
    by (simp_all add: main_def no_workers_def no_requests_def)
  then show ?thesis
    using h1 h2
      invalid_config_rejected_before_any_request [OF h1, of calm_world]
      invalid_config_rejected_before_any_request [OF h2, of calm_world]
    by simp
qed

subsection \<open>C3: more workers than requests\<close>

text \<open>
  C3: for a valid configuration with \<open>workers > request_count\<close> the pool is made with
  \<open>request_count\<close> processes, not with the configured \<open>workers\<close>; the validation raises
  nothing (the run does not end in \<^verbatim>\<open>fail_json\<close> or with the \<^verbatim>\<open>AttributeError\<close>), and
  all \<open>request_count\<close> requests are handed to the pool.
\<close>

theorem workers_clamped_to_request_count:
  assumes "1 \<le> request_count p" and "request_count p < workers p"
  shows "pool_processes (main p w) = Some (request_count p)
       \<and> executor_calls (main p w) = nat (request_count p)
       \<and> (\<forall>m. outcome (main p w) \<noteq> Some (Inl (FailJson m)))
       \<and> (\<forall>m. outcome (main p w) \<noteq> Some (Inl (AttributeError m)))"
proof -
  have "(\<exists>x. e = OpenUrlRaised x) \<or> e = MaybeEncodingError \<or> e = ZeroDivisionError"
    if "outcome (main p w) = Some (Inl e)" for e
  proof -
    from that assms consider
      "aggregate (async_results p w)
         \<lparr>total_bytes = 0, total_content_bytes = 0, total_errors = 0\<rparr> = Inl e"
      | "e = ZeroDivisionError"
      by (auto simp: main_def Let_def split: if_splits sum.splits)
    then show ?thesis
    proof cases
      case 1
      from aggregate_Inl_member [OF 1] show ?thesis
        by (auto simp: async_results_def dest: pool_get_raise_kind [OF sym])
    next
      case 2
      then show ?thesis by simp
    qed
  qed
  then have "outcome (main p w) \<noteq> Some (Inl (FailJson m))"
    and "outcome (main p w) \<noteq> Some (Inl (AttributeError m'))" for m m'
    by (metis error.distinct)+
  moreover from assms have "pool_processes (main p w) = Some (request_count p)"
    and "executor_calls (main p w) = nat (request_count p)"
    by (simp_all add: main_def Let_def length_async_results)
  ultimately show ?thesis by simp
qed

text \<open>C3 at \<open>workers = 50\<close>, \<open>request_count = 10\<close>: the pool has 10 processes.\<close>

theorem workers_clamped_witness:
  "1 \<le> request_count fifty_workers \<and> request_count fifty_workers < workers fifty_workers
   \<and> workers fifty_workers = 50
   \<and> pool_processes (main fifty_workers calm_world) = Some 10
   \<and> executor_calls (main fifty_workers calm_world) = 10"
proof -
  have h1: "1 \<le> request_count fifty_workers"
    and h2: "request_count fifty_workers < workers fifty_workers"
    by (simp_all add: fifty_workers_def)
  show ?thesis
    using h1 h2 workers_clamped_to_request_count [OF h1 h2, of calm_world]
    by (simp add: fifty_workers_def)
qed

subsection \<open>C4: the count of failed requests\<close>

text \<open>
  C4: in the report of a run, \<open>failed_requests\<close> is the number of collected results (there
  are \<open>request_count\<close> of them) whose status lies outside the interval \<open>[200, 400)\<close>; a
  result with a status inside the interval is not counted.
\<close>

theorem failed_requests_counts_statuses_outside_200_400:
  assumes "outcome (main p w) = Some (Inr rep)"
  shows "length (collected p w) = nat (request_count p) \<and>
         failed_requests rep =
           int (length (filter (\<lambda>r. \<not> (200 \<le> status r \<and> status r < 400)) (collected p w)))"
proof -
  have "filter (\<lambda>r. \<not> (200 \<le> status r \<and> status r < 400)) (collected p w)
      = filter (\<lambda>r. status r < 200 \<or> 400 \<le> status r) (collected p w)"
    by (rule filter_cong) auto
  with main_report_totals(4) [OF assms] main_report_all_collected [OF assms]
  show ?thesis by (simp only:)
qed

text \<open>C4 at four requests answered with the statuses 199, 200, 399 and 400: two failures.\<close>

theorem failed_requests_witness:
  "outcome (main four_requests boundary_world) =
     Some (Inr \<lparr>total_time = 2, total_bytes_transferred = 12, total_content_bytes_transferred = 12,
          requests_per_second = 2, kbytes_per_second = 1 / 100, failed_requests = 2\<rparr>)
   \<and> map status (collected four_requests boundary_world) = [199, 200, 399, 400]
   \<and> int (length (filter (\<lambda>r. \<not> (200 \<le> status r \<and> status r < 400))
        (collected four_requests boundary_world))) = 2"
proof -
  have h: "outcome (main four_requests boundary_world) =
     Some (Inr \<lparr>total_time = 2, total_bytes_transferred = 12, total_content_bytes_transferred = 12,
          requests_per_second = 2, kbytes_per_second = 1 / 100, failed_requests = 2\<rparr>)"
    by code_simp
  have c: "map status (collected four_requests boundary_world) = [199, 200, 399, 400]"
    by code_simp
  show ?thesis
    using h c failed_requests_counts_statuses_outside_200_400 [OF h] by simp
qed

subsection \<open>C5: the byte totals\<close>

text \<open>
  C5: in the report of a run, \<open>total_bytes_transferred\<close> is the sum of \<open>content_length\<close>
  over the collected results and equals \<open>total_content_bytes_transferred\<close>, because every
  collected result has its \<open>total_length\<close> equal to its \<open>content_length\<close>, both being the
  number of body bytes its request read.
\<close>

theorem total_bytes_is_sum_of_content_lengths:
  assumes "outcome (main p w) = Some (Inr rep)"
  shows "total_bytes_transferred rep = sum_list (map content_length (collected p w))
       \<and> total_bytes_transferred rep = total_content_bytes_transferred rep
       \<and> map total_length (collected p w) = map content_length (collected p w)
       \<and> map content_length (collected p w) = map (body_bytes p w) [0 ..< nat (request_count p)]"
proof -
  note tasks = main_report_collected_tasks [OF assms]
  have cl: "map content_length (collected p w) = map (body_bytes p w) [0 ..< nat (request_count p)]"
    unfolding tasks(1) map_map comp_def
  proof (rule map_cong [OF refl])
    fix i assume "i \<in> set [0 ..< nat (request_count p)]"
    then have "task p w i = Inr (projr (task p w i))"
      using tasks(2) by simp
    from task_returned [OF this] show "content_length (projr (task p w i)) = body_bytes p w i" ..
  qed
  have tl: "map total_length (collected p w) = map (body_bytes p w) [0 ..< nat (request_count p)]"
    unfolding tasks(1) map_map comp_def
  proof (rule map_cong [OF refl])
    fix i assume "i \<in> set [0 ..< nat (request_count p)]"
    then have "task p w i = Inr (projr (task p w i))"
      using tasks(2) by simp
    from task_returned [OF this] show "total_length (projr (task p w i)) = body_bytes p w i" ..
  qed
  from main_report_totals(2,3) [OF assms] cl tl show ?thesis
    by (simp only:)
qed

text \<open>C5 at two requests that each read a body of 1024 bytes.\<close>

theorem total_bytes_witness:
  "outcome (main two_requests kilobyte_world) =
     Some (Inr \<lparr>total_time = 3 / 2, total_bytes_transferred = 2048,
          total_content_bytes_transferred = 2048, requests_per_second = 133 / 100,
          kbytes_per_second = 133 / 100, failed_requests = 0\<rparr>)
   \<and> sum_list (map content_length (collected two_requests kilobyte_world)) = 2048
   \<and> map content_length (collected two_requests kilobyte_world) = [1024, 1024]"
proof -
  have h: "outcome (main two_requests kilobyte_world) =
     Some (Inr \<lparr>total_time = 3 / 2, total_bytes_transferred = 2048,
          total_content_bytes_transferred = 2048, requests_per_second = 133 / 100,
          kbytes_per_second = 133 / 100, failed_requests = 0\<rparr>)"
    by code_simp
  have c: "map content_length (collected two_requests kilobyte_world) = [1024, 1024]"
    by code_simp
  show ?thesis
    using h c total_bytes_is_sum_of_content_lengths [OF h] by simp
qed

subsection \<open>C7: a total time of zero\<close>

text \<open>
  C7, as stated, says that the division by \<open>total_time\<close> is guarded, so that a run whose
  \<open>total_time\<close> rounds to zero still returns a report. The code divides without a test:
  with two requests that both return and equal start and end readings, the run ends with
  \<^verbatim>\<open>ZeroDivisionError\<close>.
\<close>

theorem zero_total_time_raises:
  "outcome (main two_requests instant_world) = Some (Inl ZeroDivisionError)"
  by code_simp

text \<open>
  C7, amended: under a valid configuration, a run whose \<open>total_time\<close> rounds to zero
  returns no report: unless it never returns (a result lost in the pool) it ends with an
  error, and when every request returned that error is \<^verbatim>\<open>ZeroDivisionError\<close>, raised by
  the division that computes \<open>requests_per_second\<close>.
\<close>

theorem zero_total_time_gives_no_report:
  assumes "1 \<le> workers p" and "1 \<le> request_count p"
    and "py_round (m_end w - m_start w) 3 = 0"
  shows "(\<forall>rep. outcome (main p w) \<noteq> Some (Inr rep))
       \<and> (\<not> pool_hangs p w \<longrightarrow> (\<exists>e. outcome (main p w) = Some (Inl e)))
       \<and> (async_results p w = map Inr (collected p w)
            \<longrightarrow> outcome (main p w) = Some (Inl ZeroDivisionError))"
proof -
  from assms have a: "outcome (main p w) \<noteq> Some (Inr rep)" for rep
    by (auto simp: main_def Let_def split: sum.splits)
  from assms have b: "\<exists>e. outcome (main p w) = Some (Inl e)" if "\<not> pool_hangs p w"
    using that by (auto simp: main_def Let_def split: sum.splits)
  have c: "outcome (main p w) = Some (Inl ZeroDivisionError)"
    if all: "async_results p w = map Inr (collected p w)"
  proof -
    from all_returned_no_hang [OF all] assms show ?thesis
      by (simp add: main_def Let_def) (simp add: all aggregate_all_returned)
  qed
  from a b c show ?thesis by blast
qed

text \<open>The amended C7 at the run above.\<close>

theorem zero_total_time_witness:
  "py_round (m_end instant_world - m_start instant_world) 3 = 0
   \<and> \<not> pool_hangs two_requests instant_world
   \<and> async_results two_requests instant_world = map Inr (collected two_requests instant_world)
   \<and> outcome (main two_requests instant_world) = Some (Inl ZeroDivisionError)"
proof -
  have h1: "1 \<le> workers two_requests" and h2: "1 \<le> request_count two_requests"
    by (simp_all add: two_requests_def)
  have h3: "py_round (m_end instant_world - m_start instant_world) 3 = 0"
    by code_simp
  have h4: "async_results two_requests instant_world
      = map Inr (collected two_requests instant_world)"
    by code_simp
  have h5: "\<not> pool_hangs two_requests instant_world"
    by code_simp
  show ?thesis
    using h3 h4 h5 zero_total_time_gives_no_report [OF h1 h2 h3] by simp
qed

subsection \<open>C8: what the elapsed time of a request covers\<close>

text \<open>
  C8, as stated, says that the end timestamp of a request is taken only after the body
  has been read, so that the recorded duration covers the body read. In the code the end
  timestamp is taken when \<^verbatim>\<open>open_url\<close> returns, before \<^verbatim>\<open>res.read()\<close>: a request
  started at clock 0, whose \<^verbatim>\<open>open_url\<close> takes 2 seconds and whose body read takes 3,
  records a duration of 2 while its body read ends at clock 5.
\<close>

theorem elapsed_excludes_body_read:
  "run_test (status_server 200) ''http://example.test/ok'' False False 0 =
     (Inr \<lparr>status = 200, time = 2, content_length = 3, total_length = 3\<rparr>, 5)"
  by code_simp

text \<open>
  C8, amended: for every request that returns, the recorded duration is the time taken by
  the call of \<^verbatim>\<open>open_url\<close> alone; the body, from which \<open>content_length\<close> and
  \<open>total_length\<close> are derived, is read after the end timestamp, and the request ends
  later by the time that read takes.
\<close>

theorem elapsed_covers_open_url_only:
  assumes "reply (srv u (request_headers ka)) = Inr res"
  shows "run_test srv u ka vl c0 =
     (Inr \<lparr>status = code res,
           time = open_dur (srv u (request_headers ka)),
           content_length = int (length (body res)),
           total_length = int (length (body res))\<rparr>,
      c0 + open_dur (srv u (request_headers ka)) + read_dur res)"
  using assms by (simp add: run_test_def open_url_def res_read_def request_headers_def Let_def)

text \<open>The amended C8 at the request above, sent with the keep-alive header.\<close>

theorem elapsed_covers_open_url_only_witness:
  "reply (status_server 200 ''http://example.test/ok'' (request_headers True))
     = Inr \<lparr>code = 200, body = ''abc'', read_dur = 3\<rparr>
   \<and> run_test (status_server 200) ''http://example.test/ok'' True False 7 =
     (Inr \<lparr>status = 200, time = 2, content_length = 3, total_length = 3\<rparr>, 12)"
proof -
  have h: "reply (status_server 200 ''http://example.test/ok'' (request_headers True))
     = Inr \<lparr>code = 200, body = ''abc'', read_dur = 3\<rparr>"
    by (simp add: status_server_def)
  show ?thesis
    using h elapsed_covers_open_url_only
        [of "status_server 200" "''http://example.test/ok''" True _ False 7, OF h]
    by (simp add: status_server_def)
qed

subsection \<open>C9: the reduction does not depend on the order of the results\<close>

text \<open>
  C9: reducing a list of collected results and reducing any permutation of it give the
  same totals (\<open>total_bytes\<close>, \<open>total_content_bytes\<close>, \<open>total_errors\<close>), from any
  starting accumulator.
\<close>

theorem aggregate_order_independent:
  assumes "mset rs = mset rs'"
  shows "aggregate (map Inr rs) acc = aggregate (map Inr rs') acc"
proof -
  have s: "sum_list (map f rs) = sum_list (map f rs')" for f :: "URIResult \<Rightarrow> int"
    using assms by (metis mset_map sum_mset_sum_list)
  have "mset (filter P rs) = mset (filter P rs')" for P
    using assms by simp
  then have c: "length (filter P rs) = length (filter P rs')" for P
    by (metis size_mset)
  show ?thesis by (simp add: aggregate_all_returned s c)
qed

text \<open>C9 at a list of three results and its reversal.\<close>

theorem aggregate_order_independent_witness:
  "mset [\<lparr>status = 200, time = 2, content_length = 3, total_length = 3\<rparr>,
         \<lparr>status = 503, time = 1, content_length = 10, total_length = 10\<rparr>,
         \<lparr>status = 301, time = 4, content_length = 0, total_length = 0\<rparr>]
   = mset [\<lparr>status = 301, time = 4, content_length = 0, total_length = 0\<rparr>,
           \<lparr>status = 503, time = 1, content_length = 10, total_length = 10\<rparr>,
           \<lparr>status = 200, time = 2, content_length = 3, total_length = 3\<rparr>]
   \<and> aggregate (map Inr [\<lparr>status = 301, time = 4, content_length = 0, total_length = 0\<rparr>,
           \<lparr>status = 503, time = 1, content_length = 10, total_length = 10\<rparr>,
           \<lparr>status = 200, time = 2, content_length = 3, total_length = 3\<rparr>])
       \<lparr>total_bytes = 0, total_content_bytes = 0, total_errors = 0\<rparr>
     = Inr \<lparr>total_bytes = 13, total_content_bytes = 13, total_errors = 1\<rparr>"
proof -
  have h: "mset [\<lparr>status = 200, time = 2, content_length = 3, total_length = 3\<rparr>,
         \<lparr>status = 503, time = 1, content_length = 10, total_length = 10\<rparr>,
         \<lparr>status = 301, time = 4, content_length = 0, total_length = 0\<rparr>]
   = mset [\<lparr>status = 301, time = 4, content_length = 0, total_length = 0\<rparr>,
           \<lparr>status = 503, time = 1, content_length = 10, total_length = 10\<rparr>,
           \<lparr>status = 200, time = 2, content_length = 3, total_length = 3\<rparr>]"
    by (simp add: add_mset_commute)
  have "aggregate (map Inr [\<lparr>status = 200, time = 2, content_length = 3, total_length = 3\<rparr>,
         \<lparr>status = 503, time = 1, content_length = 10, total_length = 10\<rparr>,
         \<lparr>status = 301, time = 4, content_length = 0, total_length = 0\<rparr>])
       \<lparr>total_bytes = 0, total_content_bytes = 0, total_errors = 0\<rparr>
     = Inr \<lparr>total_bytes = 13, total_content_bytes = 13, total_errors = 1\<rparr>"
    by simp
  then show ?thesis
    using h aggregate_order_independent [OF h,
        of "\<lparr>total_bytes = 0, total_content_bytes = 0, total_errors = 0\<rparr>"]
    by (simp only:)
qed

subsection \<open>C10: the flag \<open>variable_length\<close>\<close>

text \<open>
  C10: with the same configuration otherwise and the same behaviour of the network, a
  run with \<open>variable_length\<close> true and a run with \<open>variable_length\<close> false end the same
  way (the same report, the same error, or both never returning), with the same pool size
  and the same number of requests: the flag is handed to \<^verbatim>\<open>run_test\<close>, which never reads it.
\<close>

theorem variable_length_has_no_effect:
  "main (p\<lparr>variable_length := True\<rparr>) w = main (p\<lparr>variable_length := False\<rparr>) w"
  by (simp add: main_def Let_def async_results_def pool_hangs_def task_variable_length
      lost_variable_length cong: sum.case_cong if_cong)

end
